theory Spec2Isabelle
  imports Main "HOL-Library.Word"
begin

section \<open>The version reporter: \<^verbatim>\<open>main.cpp\<close>\<close>

text \<open>
  The program under verification:
  \<^verbatim>\<open>
  #include "version.h"
  #include <cstdio>

  int main(int argc, char **argv) {
      const Version version;
      printf("package %s\n", version.package);
      printf("git sha = %s\n", version.git_sha1);
      printf("git decription = %s\n", version.git_description);
      return 0;
  }
  \<close>
  The header \<^verbatim>\<open>version.h\<close>, which declares \<^verbatim>\<open>Version\<close> and gives its fields their values,
  is produced by the build and is not among the sources.
\<close>

subsection \<open>Data\<close>

text \<open>
  A \<^verbatim>\<open>const char *\<close> is either the null pointer (\<open>None\<close>) or points to a NUL-terminated
  character array; \<open>Some txt\<close> stands for such a pointer, \<open>txt\<close> being the characters in
  front of the terminator. A C \<^verbatim>\<open>int\<close> is a 32-bit word.
\<close>

type_synonym cstr = "string option"

type_synonym c_int = "32 word"

text \<open>
  The three members of \<^verbatim>\<open>Version\<close> that \<^verbatim>\<open>main\<close> reads. Each one is handed to a
  \<^verbatim>\<open>%s\<close> conversion, so each is a character pointer.
\<close>

record Version =
  package :: cstr
  git_sha1 :: cstr
  git_description :: cstr

text \<open>
  The values that the build step writes into \<^verbatim>\<open>version.h\<close>. They are fixed before the
  program starts and are a parameter of the model.
\<close>

record build_values =
  build_package :: cstr
  build_git_sha1 :: cstr
  build_git_description :: cstr

text \<open>
  Modelled from the spec: the default constructor of \<^verbatim>\<open>Version\<close>, which lives in the
  generated header \<^verbatim>\<open>version.h\<close> and is missing from the sources. The spec says that
  construction takes no caller-supplied arguments, populates the three fields from values
  fixed at build time, and never fails. The build-time values are the only input, and
  there is no error result.
\<close>

definition Version_ctor :: "build_values \<Rightarrow> Version" where
  "Version_ctor b =
     \<lparr>package = build_package b,
      git_sha1 = build_git_sha1 b,
      git_description = build_git_description b\<rparr>"

subsection \<open>Formatted output\<close>

text \<open>
  The ways in which a call of \<^verbatim>\<open>printf\<close> does not come back with a result. A null pointer
  given to \<^verbatim>\<open>%s\<close> and a conversion without an argument are undefined behaviour in C; any
  conversion other than \<^verbatim>\<open>%s\<close> and \<^verbatim>\<open>%%\<close> is outside this model; and the platform may end
  the process with a signal while the call is writing.
\<close>

datatype error = NullString | MissingArgument | UnsupportedDirective | Signal nat

text \<open>
  The text that a format string and its arguments expand to. Ordinary characters are
  copied, \<^verbatim>\<open>%%\<close> gives one percent sign, and \<^verbatim>\<open>%s\<close> consumes the next argument and copies
  the string it points to. Only the format string is scanned for conversions; the copied
  argument is not looked at again. Surplus arguments are ignored, as in C.
\<close>

fun format :: "string \<Rightarrow> cstr list \<Rightarrow> error + string" where
  "format [] args = Inr []"
| "format (c # fmt) args =
     (if c \<noteq> CHR ''%'' then map_sum id (\<lambda>out. c # out) (format fmt args)
      else (case fmt of
              [] \<Rightarrow> Inl UnsupportedDirective
            | d # rest \<Rightarrow>
                if d = CHR ''%'' then map_sum id (\<lambda>out. CHR ''%'' # out) (format rest args)
                else if d = CHR ''s'' then
                  (case args of
                     [] \<Rightarrow> Inl MissingArgument
                   | None # args' \<Rightarrow> Inl NullString
                   | Some txt # args' \<Rightarrow> map_sum id (\<lambda>out. txt @ out) (format rest args'))
                else Inl UnsupportedDirective))"

text \<open>
  The standard output stream belongs to the platform. A device takes the expanded text of
  one call and the stream. Either the call returns, with the value that \<^verbatim>\<open>printf\<close> reports
  (the number of characters transmitted, or a negative value after an error) and the
  stream afterwards, or the process is ended inside the call by a signal. Nothing else is
  assumed of a device: it may drop, pad, truncate or refuse a write.
\<close>

datatype 'st write_result = Returned c_int 'st | Killed nat

type_synonym 'st device = "string \<Rightarrow> 'st \<Rightarrow> 'st write_result"

text \<open>A device on which every call returns, whatever it reports and does to the stream.\<close>

definition returning :: "(string \<Rightarrow> 'st \<Rightarrow> c_int \<times> 'st) \<Rightarrow> 'st device" where
  "returning w txt s = (case w txt s of (n, s') \<Rightarrow> Returned n s')"

text \<open>The largest value of a C \<^verbatim>\<open>int\<close>, the type of the result of \<^verbatim>\<open>printf\<close>.\<close>

definition INT_MAX :: nat where
  "INT_MAX = 2147483647"

text \<open>
  The device of a stream that accepts every write; the stream is the text written so far.
  A call whose expanded text has at most \<^verbatim>\<open>INT_MAX\<close> characters writes all of it and reports
  their number. What a call with a longer text writes and reports differs from one C
  library to the next, so it is left to the parameter \<open>over\<close>.
\<close>

definition console :: "string device \<Rightarrow> string device" where
  "console over txt out =
     (if length txt \<le> INT_MAX then Returned (word_of_nat (length txt)) (out @ txt)
      else over txt out)"

text \<open>
  One behaviour of a C library on a line of this program that is too long (glibc 2.36, for
  a field of fewer than \<open>2^31\<close> characters). Each piece of the line is written before its
  length is added to the character count, and the call stops with \<open>-1\<close> when the count
  overflows. When the prefix and the field together exceed \<^verbatim>\<open>INT_MAX\<close>, the newline that
  ends the format is never written; when only the newline makes the line too long, the
  whole line is written.
\<close>

definition newline_lost :: "string device" where
  "newline_lost txt out =
     (if length (butlast txt) \<le> INT_MAX then Returned (- 1) (out @ txt)
      else Returned (- 1) (out @ butlast txt))"

text \<open>
  The device of a stream on which every write fails, such as a closed standard output:
  nothing is transmitted and \<^verbatim>\<open>printf\<close> reports a negative value.
\<close>

definition refusing :: "string device" where
  "refusing txt out = Returned (- 1) out"

text \<open>
  The device of a pipe that nobody reads. The stream is the content of the output buffer,
  which holds \<open>cap\<close> characters. Text that fits is kept in the buffer and the call returns;
  text that does not fit makes the library write to the pipe, and the process is ended by
  \<^verbatim>\<open>SIGPIPE\<close>, signal 13.
\<close>

definition broken_pipe :: "nat \<Rightarrow> string device" where
  "broken_pipe cap txt buf =
     (if length buf + length txt \<le> cap \<and> length txt \<le> INT_MAX
      then Returned (word_of_nat (length txt)) (buf @ txt)
      else Killed 13)"

definition printf :: "'st device \<Rightarrow> string \<Rightarrow> cstr list \<Rightarrow> 'st \<Rightarrow> error + (c_int \<times> 'st)" where
  "printf dev fmt args s =
     (case format fmt args of
        Inl e \<Rightarrow> Inl e
      | Inr txt \<Rightarrow>
          (case dev txt s of
             Returned n s' \<Rightarrow> Inr (n, s')
           | Killed sig \<Rightarrow> Inl (Signal sig)))"

subsection \<open>The program\<close>

text \<open>
  What \<^verbatim>\<open>main\<close> can see and change while it runs: its local object \<^verbatim>\<open>version\<close> and the
  standard output stream.
\<close>

record 'st frame =
  version :: Version
  stdout :: 'st

text \<open>
  One statement \<^verbatim>\<open>printf(fmt, version.field);\<close>. The value that \<^verbatim>\<open>printf\<close> returns is
  thrown away. A call that does not return ends the run there.
\<close>

definition printf_stmt ::
  "'st device \<Rightarrow> string \<Rightarrow> (Version \<Rightarrow> cstr) \<Rightarrow> 'st frame \<Rightarrow> error + 'st frame" where
  "printf_stmt dev fmt field fr =
     (case printf dev fmt [field (version fr)] (stdout fr) of
        Inl e \<Rightarrow> Inl e
      | Inr (n, s) \<Rightarrow> Inr (fr\<lparr>stdout := s\<rparr>))"

text \<open>
  Lines 6 to 8 of \<^verbatim>\<open>main\<close>, the three output statements in their order. The spec calls
  this block \<^verbatim>\<open>report()\<close>.
\<close>

definition report :: "'st device \<Rightarrow> 'st frame \<Rightarrow> error + 'st frame" where
  "report dev fr =
     (case printf_stmt dev ''package %s\<newline>'' package fr of
        Inl e \<Rightarrow> Inl e
      | Inr fr1 \<Rightarrow>
          (case printf_stmt dev ''git sha = %s\<newline>'' git_sha1 fr1 of
             Inl e \<Rightarrow> Inl e
           | Inr fr2 \<Rightarrow> printf_stmt dev ''git decription = %s\<newline>'' git_description fr2))"

text \<open>
  The whole of \<^verbatim>\<open>main\<close>: construct \<^verbatim>\<open>version\<close>, run the three output statements, return 0.
  The result is the value returned together with the frame at the \<^verbatim>\<open>return\<close>. The parameters
  \<open>argc\<close> and \<open>argv\<close> are not used in the body.
\<close>

definition main :: "'st device \<Rightarrow> build_values \<Rightarrow> c_int \<Rightarrow> cstr list \<Rightarrow> 'st \<Rightarrow> error + (c_int \<times> 'st frame)" where
  "main dev b argc argv s =
     (case report dev \<lparr>version = Version_ctor b, stdout = s\<rparr> of
        Inl e \<Rightarrow> Inl e
      | Inr fr \<Rightarrow> Inr (0, fr))"

text \<open>Build-time values that are all text, none of them null.\<close>

definition text_values :: "string \<Rightarrow> string \<Rightarrow> string \<Rightarrow> build_values" where
  "text_values p h d =
     \<lparr>build_package = Some p, build_git_sha1 = Some h, build_git_description = Some d\<rparr>"


text \<open>
  The lines of a text: a line ends at a newline character, which is not part of it, and
  characters after the last newline form a final line.
\<close>

fun split_lines :: "string \<Rightarrow> string list" where
  "split_lines [] = []"
| "split_lines (c # cs) =
     (if c = CHR 0x0A then [] # split_lines cs
      else (case split_lines cs of
              [] \<Rightarrow> [[c]]
            | l # ls \<Rightarrow> (c # l) # ls))"

section \<open>Properties\<close>

subsection \<open>Shared facts\<close>

lemma format_package:
  "format ''package %s\<newline>'' [Some t] = Inr (''package '' @ t @ ''\<newline>'')"
  by simp

lemma format_git_sha:
  "format ''git sha = %s\<newline>'' [Some t] = Inr (''git sha = '' @ t @ ''\<newline>'')"
  by simp

lemma format_git_description:
  "format ''git decription = %s\<newline>'' [Some t] = Inr (''git decription = '' @ t @ ''\<newline>'')"
  by simp

lemma printf_stmt_returned:
  assumes "format fmt [field v] = Inr line" and "dev line s = Returned n s'"
  shows "printf_stmt dev fmt field \<lparr>version = v, stdout = s\<rparr> = Inr \<lparr>version = v, stdout = s'\<rparr>"
  using assms by (simp add: printf_stmt_def printf_def)

lemma printf_stmt_killed:
  assumes "format fmt [field v] = Inr line" and "dev line s = Killed sig"
  shows "printf_stmt dev fmt field \<lparr>version = v, stdout = s\<rparr> = Inl (Signal sig)"
  using assms by (simp add: printf_stmt_def printf_def)

lemma printf_stmt_returning:
  assumes "format fmt [field v] = Inr line"
  shows "printf_stmt (returning w) fmt field \<lparr>version = v, stdout = s\<rparr> =
           Inr \<lparr>version = v, stdout = snd (w line s)\<rparr>"
  using assms by (simp add: printf_stmt_def printf_def returning_def split: prod.splits)

lemma console_fits:
  "length txt \<le> INT_MAX \<Longrightarrow>
     console over txt out = Returned (word_of_nat (length txt)) (out @ txt)"
  by (simp add: console_def)

lemma printf_stmt_console:
  assumes "format fmt [field v] = Inr line" and "length line \<le> INT_MAX"
  shows "printf_stmt (console over) fmt field \<lparr>version = v, stdout = out\<rparr> =
           Inr \<lparr>version = v, stdout = out @ line\<rparr>"
  using assms by (simp add: printf_stmt_def printf_def console_def)

lemma report_returning:
  assumes "package v = Some p" "git_sha1 v = Some h" "git_description v = Some d"
  shows "report (returning w) \<lparr>version = v, stdout = s\<rparr> =
           Inr \<lparr>version = v,
                stdout = snd (w (''git decription = '' @ d @ ''\<newline>'')
                           (snd (w (''git sha = '' @ h @ ''\<newline>'')
                             (snd (w (''package '' @ p @ ''\<newline>'') s)))))\<rparr>"
  using assms
  by (simp add: report_def printf_stmt_def printf_def returning_def split: prod.splits)

lemma report_console:
  assumes "package v = Some p" "git_sha1 v = Some h" "git_description v = Some d"
    and "length (''package '' @ p @ ''\<newline>'') \<le> INT_MAX"
    and "length (''git sha = '' @ h @ ''\<newline>'') \<le> INT_MAX"
    and "length (''git decription = '' @ d @ ''\<newline>'') \<le> INT_MAX"
  shows "report (console over) \<lparr>version = v, stdout = out\<rparr> =
           Inr \<lparr>version = v,
                stdout = out @ ''package '' @ p @ ''\<newline>''
                             @ ''git sha = '' @ h @ ''\<newline>''
                             @ ''git decription = '' @ d @ ''\<newline>''\<rparr>"
  using assms
  by (simp add: report_def printf_stmt_def printf_def console_def)

lemma version_text_values:
  "package (Version_ctor (text_values p h d)) = Some p"
  "git_sha1 (Version_ctor (text_values p h d)) = Some h"
  "git_description (Version_ctor (text_values p h d)) = Some d"
  by (simp_all add: Version_ctor_def text_values_def)

lemma main_returning:
  "main (returning w) (text_values p h d) argc argv s =
     Inr (0, \<lparr>version = Version_ctor (text_values p h d),
              stdout = snd (w (''git decription = '' @ d @ ''\<newline>'')
                         (snd (w (''git sha = '' @ h @ ''\<newline>'')
                           (snd (w (''package '' @ p @ ''\<newline>'') s)))))\<rparr>)"
  by (simp only: main_def report_returning [OF version_text_values] sum.case)

lemma main_console:
  assumes "length (''package '' @ p @ ''\<newline>'') \<le> INT_MAX"
    and "length (''git sha = '' @ h @ ''\<newline>'') \<le> INT_MAX"
    and "length (''git decription = '' @ d @ ''\<newline>'') \<le> INT_MAX"
  shows "main (console over) (text_values p h d) argc argv out =
     Inr (0, \<lparr>version = Version_ctor (text_values p h d),
              stdout = out @ ''package '' @ p @ ''\<newline>''
                           @ ''git sha = '' @ h @ ''\<newline>''
                           @ ''git decription = '' @ d @ ''\<newline>''\<rparr>)"
  by (simp only: main_def report_console [OF version_text_values assms] sum.case)

lemma split_lines_line:
  "CHR 0x0A \<notin> set l \<Longrightarrow> split_lines (l @ CHR 0x0A # rest) = l # split_lines rest"
  by (induction l) auto

lemma main_returns_or_killed:
  "(\<exists>fr. main dev (text_values p h d) argc argv s = Inr (0, fr))
   \<or> (\<exists>sig. main dev (text_values p h d) argc argv s = Inl (Signal sig))"
  by (simp add: main_def report_def printf_stmt_def printf_def version_text_values
      split: write_result.splits)

lemma non_null_values:
  assumes "build_package b \<noteq> None" "build_git_sha1 b \<noteq> None"
    "build_git_description b \<noteq> None"
  shows "\<exists>p h d. b = text_values p h d"
proof -
  from assms obtain p h d where
    "build_package b = Some p" "build_git_sha1 b = Some h" "build_git_description b = Some d"
    by auto
  then have "b = text_values p h d"
    by (cases b) (simp add: text_values_def)
  then show ?thesis by blast
qed

lemma null_package_undefined:
  "main dev \<lparr>build_package = None, build_git_sha1 = h, build_git_description = d\<rparr>
     argc argv s = Inl NullString"
  by (simp add: main_def report_def printf_stmt_def printf_def Version_ctor_def)

subsection \<open>The output of a run\<close>

text \<open>
  C1, as amended. For every triple of field texts whose three output lines have at most
  \<^verbatim>\<open>INT_MAX\<close> characters each, a run hands the platform exactly three writes, in this
  order: \<^verbatim>\<open>package <package>\<close>, \<^verbatim>\<open>git sha = <revisionHash>\<close> and
  \<^verbatim>\<open>git decription = <revisionDescription>\<close>, each closed by a newline and with the
  prefixes spelt exactly so. On a stream that accepts every write, the text on standard
  output grows by exactly these three lines.
\<close>

theorem main_writes_three_lines:
  fixes w :: "string \<Rightarrow> 'st \<Rightarrow> c_int \<times> 'st"
  assumes "length (''package '' @ p @ ''\<newline>'') \<le> INT_MAX"
    and "length (''git sha = '' @ h @ ''\<newline>'') \<le> INT_MAX"
    and "length (''git decription = '' @ d @ ''\<newline>'') \<le> INT_MAX"
  shows "main (returning w) (text_values p h d) argc argv s =
           Inr (0, \<lparr>version = Version_ctor (text_values p h d),
                stdout = snd (w (''git decription = '' @ d @ ''\<newline>'')
                           (snd (w (''git sha = '' @ h @ ''\<newline>'')
                             (snd (w (''package '' @ p @ ''\<newline>'') s)))))\<rparr>)
         \<and> main (console over) (text_values p h d) argc argv out =
           Inr (0, \<lparr>version = Version_ctor (text_values p h d),
                stdout = out @ ''package '' @ p @ ''\<newline>''
                             @ ''git sha = '' @ h @ ''\<newline>''
                             @ ''git decription = '' @ d @ ''\<newline>''\<rparr>)"
  by (simp only: main_returning main_console [OF assms] simp_thms)

theorem main_writes_three_lines_witness:
  "length (''package '' @ ''demo-pkg'' @ ''\<newline>'') \<le> INT_MAX
   \<and> length (''git sha = '' @ ''abc1234'' @ ''\<newline>'') \<le> INT_MAX
   \<and> length (''git decription = '' @ ''v1.2.0-3-gabc1234'' @ ''\<newline>'') \<le> INT_MAX
   \<and> main (console refusing) (text_values ''demo-pkg'' ''abc1234'' ''v1.2.0-3-gabc1234'')
       1 [Some ''prog''] [] =
     Inr (0, \<lparr>version = Version_ctor (text_values ''demo-pkg'' ''abc1234'' ''v1.2.0-3-gabc1234''),
              stdout = ''package demo-pkg\<newline>git sha = abc1234\<newline>git decription = v1.2.0-3-gabc1234\<newline>''\<rparr>)"
proof -
  have a: "length (''package '' @ ''demo-pkg'' @ ''\<newline>'') \<le> INT_MAX"
    and b: "length (''git sha = '' @ ''abc1234'' @ ''\<newline>'') \<le> INT_MAX"
    and c: "length (''git decription = '' @ ''v1.2.0-3-gabc1234'' @ ''\<newline>'') \<le> INT_MAX"
    by (simp_all add: INT_MAX_def)
  have e: "[] @ ''package '' @ ''demo-pkg'' @ ''\<newline>'' @ ''git sha = '' @ ''abc1234''
             @ ''\<newline>'' @ ''git decription = '' @ ''v1.2.0-3-gabc1234'' @ ''\<newline>'' =
           ''package demo-pkg\<newline>git sha = abc1234\<newline>git decription = v1.2.0-3-gabc1234\<newline>''"
    by simp
  from main_writes_three_lines [OF a b c, of "\<lambda>txt out. (0, out)" 1 "[Some ''prog'']" "[]"
      refusing "[]"]
  have m: "main (console refusing) (text_values ''demo-pkg'' ''abc1234'' ''v1.2.0-3-gabc1234'')
       1 [Some ''prog''] [] =
     Inr (0, \<lparr>version = Version_ctor (text_values ''demo-pkg'' ''abc1234'' ''v1.2.0-3-gabc1234''),
              stdout = ''package demo-pkg\<newline>git sha = abc1234\<newline>git decription = v1.2.0-3-gabc1234\<newline>''\<rparr>)"
    unfolding e by (rule conjunct2)
  from a b c m show ?thesis by blast
qed

text \<open>
  C1 as first stated, for all field values, fails on a field of 2147483640 characters:
  with the prefix the first line is longer than \<^verbatim>\<open>INT_MAX\<close>, its newline is lost, and
  the output is not the three lines.
\<close>

theorem three_lines_long_field_counterexample:
  "main (console newline_lost) (text_values (replicate 2147483640 (CHR ''a'')) ''c'' ''d'')
     1 [Some ''prog''] [] =
     Inr (0, \<lparr>version = Version_ctor (text_values (replicate 2147483640 (CHR ''a'')) ''c'' ''d''),
              stdout = ''package '' @ replicate 2147483640 (CHR ''a'')
                         @ ''git sha = c\<newline>git decription = d\<newline>''\<rparr>)
   \<and> ''package '' @ replicate 2147483640 (CHR ''a'')
         @ ''git sha = c\<newline>git decription = d\<newline>''
       \<noteq> ''package '' @ replicate 2147483640 (CHR ''a'') @ ''\<newline>''
         @ ''git sha = '' @ ''c'' @ ''\<newline>'' @ ''git decription = '' @ ''d'' @ ''\<newline>''"
  by (simp add: main_def report_def printf_stmt_def printf_def console_def newline_lost_def
      INT_MAX_def version_text_values butlast_append)

text \<open>
  C2. With the field values \<^verbatim>\<open>demo-pkg\<close>, \<^verbatim>\<open>abc1234\<close> and \<^verbatim>\<open>v1.2.0-3-gabc1234\<close>, the three
  output statements put exactly the text
  \<^verbatim>\<open>package demo-pkg\ngit sha = abc1234\ngit decription = v1.2.0-3-gabc1234\n\<close>
  on an empty standard output.
\<close>

theorem report_demo_pkg:
  "report (console over)
     \<lparr>version = Version_ctor (text_values ''demo-pkg'' ''abc1234'' ''v1.2.0-3-gabc1234''),
      stdout = []\<rparr> =
   Inr \<lparr>version = Version_ctor (text_values ''demo-pkg'' ''abc1234'' ''v1.2.0-3-gabc1234''),
        stdout = ''package demo-pkg\<newline>git sha = abc1234\<newline>git decription = v1.2.0-3-gabc1234\<newline>''\<rparr>"
  by (simp add: report_console [where p = "''demo-pkg''" and h = "''abc1234''"
        and d = "''v1.2.0-3-gabc1234''"] version_text_values INT_MAX_def)

subsection \<open>Arguments and exit status\<close>

text \<open>
  C3. Two runs with the same build-time values, on the same stream, give the same result
  whatever their argument counts and argument vectors are; with text in all three fields
  both return exit status 0 and leave the same standard output.
\<close>

theorem main_ignores_arguments:
  fixes dev :: "'st device" and w :: "string \<Rightarrow> 'st \<Rightarrow> c_int \<times> 'st"
  shows "main dev b argc argv s = main dev b argc' argv' s
         \<and> (\<exists>fr. main (returning w) (text_values p h d) argc argv s = Inr (0, fr)
                 \<and> main (returning w) (text_values p h d) argc' argv' s = Inr (0, fr))"
  by (simp add: main_returning) (simp add: main_def)

text \<open>
  C4, as amended. When every output write hands control back to \<^verbatim>\<open>main\<close>, the value
  returned is 0: for all field texts, the three empty strings among them, for all
  arguments, and whatever the writes report and do, also when every write fails.
\<close>

theorem main_exit_status_zero:
  fixes w :: "string \<Rightarrow> 'st \<Rightarrow> c_int \<times> 'st"
  shows "(\<exists>fr. main (returning w) (text_values p h d) argc argv s = Inr (0, fr))
         \<and> (\<exists>fr. main (returning w) (text_values [] [] []) argc argv s = Inr (0, fr))
         \<and> main refusing (text_values p h d) argc argv out =
             Inr (0, \<lparr>version = Version_ctor (text_values p h d), stdout = out\<rparr>)"
proof -
  have "main refusing (text_values p h d) argc argv out =
      Inr (0, \<lparr>version = Version_ctor (text_values p h d), stdout = out\<rparr>)"
    by (simp add: main_def report_def printf_stmt_def printf_def refusing_def
        version_text_values)
  then show ?thesis by (simp add: main_returning)
qed

text \<open>
  C4 as first stated, for all scenarios, fails when standard output is a pipe that nobody
  reads. With a package name of 100000 characters and a buffer of 4096, the first call of
  \<^verbatim>\<open>printf\<close> has to write to the pipe, the process is ended by signal 13 inside that call,
  and \<^verbatim>\<open>return 0\<close> is never reached.
\<close>

theorem exit_status_broken_pipe_counterexample:
  "main (broken_pipe 4096) (text_values (replicate 100000 (CHR ''a'')) ''h'' ''d'')
     1 [Some ''prog''] [] = Inl (Signal 13)"
  by (simp add: main_def report_def printf_stmt_def printf_def broken_pipe_def
      version_text_values)

subsection \<open>The version object\<close>



text \<open>
  C7. The object is constructed once, at the start of \<^verbatim>\<open>main\<close>, and nothing after that
  changes a field: each output statement, the block of three, and the whole run leave
  \<^verbatim>\<open>version\<close> equal to the constructed value, on every platform.
\<close>

theorem version_never_mutated:
  fixes dev :: "'st device"
  shows "(printf_stmt dev fmt field fr = Inr fr1 \<longrightarrow> version fr1 = version fr)
         \<and> (report dev fr = Inr fr3 \<longrightarrow> version fr3 = version fr)
         \<and> (main dev b argc argv s = Inr (rc, fr') \<longrightarrow> version fr' = Version_ctor b)"
proof -
  have stmt: "version y = version x" if "printf_stmt dev f g x = Inr y" for f g x y
    using that by (auto simp: printf_stmt_def split: sum.splits prod.splits)
  have rep: "version y = version x" if "report dev x = Inr y" for x y
    using that by (auto simp: report_def split: sum.splits dest!: stmt)
  have "version fr' = Version_ctor b" if "main dev b argc argv s = Inr (rc, fr')"
    using that by (auto simp: main_def split: sum.splits dest!: rep)
  with stmt rep show ?thesis by blast
qed

theorem version_never_mutated_witness:
  "printf_stmt (console refusing) ''package %s\<newline>'' package
     \<lparr>version = Version_ctor (text_values ''p'' ''h'' ''d''), stdout = []\<rparr> =
     Inr \<lparr>version = Version_ctor (text_values ''p'' ''h'' ''d''),
          stdout = ''package p\<newline>''\<rparr>
   \<and> report (console refusing)
       \<lparr>version = Version_ctor (text_values ''p'' ''h'' ''d''), stdout = []\<rparr> =
     Inr \<lparr>version = Version_ctor (text_values ''p'' ''h'' ''d''),
          stdout = ''package p\<newline>git sha = h\<newline>git decription = d\<newline>''\<rparr>
   \<and> main (console refusing) (text_values ''p'' ''h'' ''d'') 1 [Some ''prog''] [] =
     Inr (0, \<lparr>version = Version_ctor (text_values ''p'' ''h'' ''d''),
              stdout = ''package p\<newline>git sha = h\<newline>git decription = d\<newline>''\<rparr>)
   \<and> version \<lparr>version = Version_ctor (text_values ''p'' ''h'' ''d''),
          stdout = ''package p\<newline>git sha = h\<newline>git decription = d\<newline>''\<rparr> =
     Version_ctor (text_values ''p'' ''h'' ''d'')"
proof -
  have r: "report (console refusing)
       \<lparr>version = Version_ctor (text_values ''p'' ''h'' ''d''), stdout = []\<rparr> =
     Inr \<lparr>version = Version_ctor (text_values ''p'' ''h'' ''d''),
          stdout = ''package p\<newline>git sha = h\<newline>git decription = d\<newline>''\<rparr>"
    by (simp add: report_console [where p = "''p''" and h = "''h''" and d = "''d''"]
        version_text_values INT_MAX_def)
  have m: "main (console refusing) (text_values ''p'' ''h'' ''d'') 1 [Some ''prog''] [] =
     Inr (0, \<lparr>version = Version_ctor (text_values ''p'' ''h'' ''d''),
              stdout = ''package p\<newline>git sha = h\<newline>git decription = d\<newline>''\<rparr>)"
    by (simp only: main_def r sum.case)
  have p: "printf_stmt (console refusing) ''package %s\<newline>'' package
     \<lparr>version = Version_ctor (text_values ''p'' ''h'' ''d''), stdout = []\<rparr> =
     Inr \<lparr>version = Version_ctor (text_values ''p'' ''h'' ''d''),
          stdout = ''package p\<newline>''\<rparr>"
    by (simp add: printf_stmt_def printf_def console_def version_text_values INT_MAX_def)
  from version_never_mutated [of "console refusing" "''package %s\<newline>''" package
      "\<lparr>version = Version_ctor (text_values ''p'' ''h'' ''d''), stdout = []\<rparr>"
      "\<lparr>version = Version_ctor (text_values ''p'' ''h'' ''d''), stdout = ''package p\<newline>''\<rparr>"
      "\<lparr>version = Version_ctor (text_values ''p'' ''h'' ''d''),
          stdout = ''package p\<newline>git sha = h\<newline>git decription = d\<newline>''\<rparr>"
      "text_values ''p'' ''h'' ''d''" 1 "[Some ''prog'']" "[]" 0
      "\<lparr>version = Version_ctor (text_values ''p'' ''h'' ''d''),
          stdout = ''package p\<newline>git sha = h\<newline>git decription = d\<newline>''\<rparr>"]
    m r p
  show ?thesis by simp
qed

text \<open>
  C8. Constructing the object needs nothing from the caller and has no failure: for all
  build-time values the constructor returns an object whose three fields hold exactly
  those values.
\<close>

theorem Version_ctor_populates_fields:
  "package (Version_ctor b) = build_package b
   \<and> git_sha1 (Version_ctor b) = build_git_sha1 b
   \<and> git_description (Version_ctor b) = build_git_description b"
  by (simp add: Version_ctor_def)

subsection \<open>Null pointers\<close>

text \<open>
  C9. When the three build-time values are not null, every one of the three calls of
  \<^verbatim>\<open>printf\<close> gets a proper string for its \<^verbatim>\<open>%s\<close>: each format expands to a text, no call
  ends in an error of the format, and the run reaches its \<^verbatim>\<open>return 0\<close> whenever the
  platform lets every call return.
\<close>

theorem non_null_fields_well_defined:
  fixes dev :: "'st device" and w :: "string \<Rightarrow> 'st \<Rightarrow> c_int \<times> 'st"
  assumes "build_package b \<noteq> None" and "build_git_sha1 b \<noteq> None"
    and "build_git_description b \<noteq> None"
  shows "(\<exists>txt. format ''package %s\<newline>'' [package (Version_ctor b)] = Inr txt)
         \<and> (\<exists>txt. format ''git sha = %s\<newline>'' [git_sha1 (Version_ctor b)] = Inr txt)
         \<and> (\<exists>txt. format ''git decription = %s\<newline>'' [git_description (Version_ctor b)] = Inr txt)
         \<and> (\<exists>fr. main (returning w) b argc argv s = Inr (0, fr))
         \<and> main dev b argc argv s \<noteq> Inl NullString
         \<and> main dev b argc argv s \<noteq> Inl MissingArgument
         \<and> main dev b argc argv s \<noteq> Inl UnsupportedDirective"
proof -
  from non_null_values [OF assms] obtain p h d where b: "b = text_values p h d"
    by blast
  have ret: "\<exists>fr. main (returning w) b argc argv s = Inr (0, fr)"
    unfolding b by (simp add: main_returning)
  have fields: "package (Version_ctor b) = Some p" "git_sha1 (Version_ctor b) = Some h"
    "git_description (Version_ctor b) = Some d"
    by (simp_all add: b version_text_values)
  have fmt: "(\<exists>txt. format ''package %s\<newline>'' [package (Version_ctor b)] = Inr txt)
         \<and> (\<exists>txt. format ''git sha = %s\<newline>'' [git_sha1 (Version_ctor b)] = Inr txt)
         \<and> (\<exists>txt. format ''git decription = %s\<newline>'' [git_description (Version_ctor b)] = Inr txt)"
    by (simp only: fields format_package format_git_sha format_git_description) blast
  from main_returns_or_killed [of dev p h d argc argv s]
  have "main dev b argc argv s \<noteq> Inl NullString \<and> main dev b argc argv s \<noteq> Inl MissingArgument
        \<and> main dev b argc argv s \<noteq> Inl UnsupportedDirective"
    unfolding b by auto
  with ret fmt show ?thesis by blast
qed

theorem non_null_fields_well_defined_witness:
  "build_package (text_values ''blog'' ''0f3a9c1'' ''v0.1-2-g0f3a9c1'') \<noteq> None
   \<and> build_git_sha1 (text_values ''blog'' ''0f3a9c1'' ''v0.1-2-g0f3a9c1'') \<noteq> None
   \<and> build_git_description (text_values ''blog'' ''0f3a9c1'' ''v0.1-2-g0f3a9c1'') \<noteq> None
   \<and> (\<exists>txt. format ''package %s\<newline>''
          [package (Version_ctor (text_values ''blog'' ''0f3a9c1'' ''v0.1-2-g0f3a9c1''))] = Inr txt)
   \<and> (\<exists>fr. main (returning (\<lambda>txt out. (0, out @ txt)))
          (text_values ''blog'' ''0f3a9c1'' ''v0.1-2-g0f3a9c1'')
          2 [Some ''prog'', Some ''-v''] [] = Inr (0, fr))
   \<and> main (broken_pipe 4096) (text_values ''blog'' ''0f3a9c1'' ''v0.1-2-g0f3a9c1'')
          2 [Some ''prog'', Some ''-v''] [] \<noteq> Inl NullString"
proof -
  have a: "build_package (text_values ''blog'' ''0f3a9c1'' ''v0.1-2-g0f3a9c1'') \<noteq> None"
    and b: "build_git_sha1 (text_values ''blog'' ''0f3a9c1'' ''v0.1-2-g0f3a9c1'') \<noteq> None"
    and c: "build_git_description (text_values ''blog'' ''0f3a9c1'' ''v0.1-2-g0f3a9c1'') \<noteq> None"
    by (simp_all add: text_values_def)
  from non_null_fields_well_defined [OF a b c, of "\<lambda>txt out. (0, out @ txt)" 2
      "[Some ''prog'', Some ''-v'']" "[]" "broken_pipe 4096"]
    a b c
  show ?thesis by blast
qed

subsection \<open>Lines and verbatim fields\<close>

text \<open>
  C6, as amended. When no field contains a newline character and each of the three output
  lines has at most \<^verbatim>\<open>INT_MAX\<close> characters, the complete standard output of a run consists
  of exactly three lines: the package line, then the sha line, then the description line.
\<close>

theorem main_output_is_three_lines:
  assumes "CHR 0x0A \<notin> set p" and "CHR 0x0A \<notin> set h" and "CHR 0x0A \<notin> set d"
    and "length (''package '' @ p @ ''\<newline>'') \<le> INT_MAX"
    and "length (''git sha = '' @ h @ ''\<newline>'') \<le> INT_MAX"
    and "length (''git decription = '' @ d @ ''\<newline>'') \<le> INT_MAX"
  shows "\<exists>fr. main (console over) (text_values p h d) argc argv [] = Inr (0, fr)
              \<and> split_lines (stdout fr) =
                  [''package '' @ p, ''git sha = '' @ h, ''git decription = '' @ d]"
proof -
  let ?out = "(''package '' @ p) @ CHR 0x0A # (''git sha = '' @ h) @ CHR 0x0A #
              (''git decription = '' @ d) @ CHR 0x0A # []"
  have "main (console over) (text_values p h d) argc argv [] =
      Inr (0, \<lparr>version = Version_ctor (text_values p h d),
               stdout = [] @ ''package '' @ p @ ''\<newline>''
                           @ ''git sha = '' @ h @ ''\<newline>''
                           @ ''git decription = '' @ d @ ''\<newline>''\<rparr>)"
    by (rule main_console [OF assms(4-6)])
  then have run: "main (console over) (text_values p h d) argc argv [] =
      Inr (0, \<lparr>version = Version_ctor (text_values p h d), stdout = ?out\<rparr>)"
    by simp
  have l1: "CHR 0x0A \<notin> set (''package '' @ p)"
    and l2: "CHR 0x0A \<notin> set (''git sha = '' @ h)"
    and l3: "CHR 0x0A \<notin> set (''git decription = '' @ d)"
    using assms(1-3) by simp_all
  have "split_lines ?out =
      [''package '' @ p, ''git sha = '' @ h, ''git decription = '' @ d]"
    by (simp only: split_lines_line [OF l1] split_lines_line [OF l2]
        split_lines_line [OF l3] split_lines.simps)
  with run show ?thesis by simp
qed

theorem main_output_is_three_lines_witness:
  "CHR 0x0A \<notin> set ''demo-pkg'' \<and> CHR 0x0A \<notin> set ''abc1234''
   \<and> CHR 0x0A \<notin> set ''v1.2.0-3-gabc1234''
   \<and> length (''package '' @ ''demo-pkg'' @ ''\<newline>'') \<le> INT_MAX
   \<and> length (''git sha = '' @ ''abc1234'' @ ''\<newline>'') \<le> INT_MAX
   \<and> length (''git decription = '' @ ''v1.2.0-3-gabc1234'' @ ''\<newline>'') \<le> INT_MAX
   \<and> (\<exists>fr. main (console newline_lost)
              (text_values ''demo-pkg'' ''abc1234'' ''v1.2.0-3-gabc1234'') 1
              [Some ''prog''] [] = Inr (0, fr)
            \<and> split_lines (stdout fr) =
                [''package '' @ ''demo-pkg'', ''git sha = '' @ ''abc1234'',
                 ''git decription = '' @ ''v1.2.0-3-gabc1234''])"
proof -
  have a: "CHR 0x0A \<notin> set ''demo-pkg''" and b: "CHR 0x0A \<notin> set ''abc1234''"
    and c: "CHR 0x0A \<notin> set ''v1.2.0-3-gabc1234''"
    by simp_all
  have l: "length (''package '' @ ''demo-pkg'' @ ''\<newline>'') \<le> INT_MAX"
    and m: "length (''git sha = '' @ ''abc1234'' @ ''\<newline>'') \<le> INT_MAX"
    and n: "length (''git decription = '' @ ''v1.2.0-3-gabc1234'' @ ''\<newline>'') \<le> INT_MAX"
    by (simp_all add: INT_MAX_def)
  from main_output_is_three_lines [OF a b c l m n, of newline_lost 1 "[Some ''prog'']"]
    a b c l m n
  show ?thesis by blast
qed

text \<open>
  C6 as first stated, for all field values, fails in two ways. A package name with a
  newline in it gives an output of four lines. A package name of 2147483640 characters
  makes the first line longer than \<^verbatim>\<open>INT_MAX\<close>; its newline is lost and the output has
  two lines.
\<close>

theorem three_lines_counterexample:
  "main (console newline_lost) (text_values ''a\<newline>b'' ''c'' ''d'') 1 [Some ''prog''] [] =
     Inr (0, \<lparr>version = Version_ctor (text_values ''a\<newline>b'' ''c'' ''d''),
              stdout = ''package a\<newline>b\<newline>git sha = c\<newline>git decription = d\<newline>''\<rparr>)
   \<and> split_lines ''package a\<newline>b\<newline>git sha = c\<newline>git decription = d\<newline>'' =
       [''package a'', ''b'', ''git sha = c'', ''git decription = d'']
   \<and> length (split_lines
        ''package a\<newline>b\<newline>git sha = c\<newline>git decription = d\<newline>'') \<noteq> 3
   \<and> main (console newline_lost) (text_values (replicate 2147483640 (CHR ''a'')) ''c'' ''d'')
       1 [Some ''prog''] [] =
     Inr (0, \<lparr>version = Version_ctor (text_values (replicate 2147483640 (CHR ''a'')) ''c'' ''d''),
              stdout = (''package '' @ replicate 2147483640 (CHR ''a'') @ ''git sha = c'')
                         @ CHR 0x0A # ''git decription = d'' @ CHR 0x0A # []\<rparr>)
   \<and> split_lines ((''package '' @ replicate 2147483640 (CHR ''a'') @ ''git sha = c'')
                         @ CHR 0x0A # ''git decription = d'' @ CHR 0x0A # []) =
       [''package '' @ replicate 2147483640 (CHR ''a'') @ ''git sha = c'', ''git decription = d'']
   \<and> length (split_lines ((''package '' @ replicate 2147483640 (CHR ''a'') @ ''git sha = c'')
                         @ CHR 0x0A # ''git decription = d'' @ CHR 0x0A # [])) \<noteq> 3"
proof -
  have short: "main (console newline_lost) (text_values ''a\<newline>b'' ''c'' ''d'') 1
      [Some ''prog''] [] =
     Inr (0, \<lparr>version = Version_ctor (text_values ''a\<newline>b'' ''c'' ''d''),
              stdout = ''package a\<newline>b\<newline>git sha = c\<newline>git decription = d\<newline>''\<rparr>)"
    by (simp add: main_def report_def printf_stmt_def printf_def console_def INT_MAX_def
        version_text_values)
  have four: "split_lines ''package a\<newline>b\<newline>git sha = c\<newline>git decription = d\<newline>'' =
       [''package a'', ''b'', ''git sha = c'', ''git decription = d'']"
    by simp
  have long: "main (console newline_lost)
       (text_values (replicate 2147483640 (CHR ''a'')) ''c'' ''d'') 1 [Some ''prog''] [] =
     Inr (0, \<lparr>version = Version_ctor (text_values (replicate 2147483640 (CHR ''a'')) ''c'' ''d''),
              stdout = (''package '' @ replicate 2147483640 (CHR ''a'') @ ''git sha = c'')
                         @ CHR 0x0A # ''git decription = d'' @ CHR 0x0A # []\<rparr>)"
    by (simp add: main_def report_def printf_stmt_def printf_def console_def newline_lost_def
        INT_MAX_def version_text_values butlast_append)
  have l1: "CHR 0x0A \<notin> set (''package '' @ replicate 2147483640 (CHR ''a'') @ ''git sha = c'')"
    and l2: "CHR 0x0A \<notin> set ''git decription = d''"
    by simp_all
  have two: "split_lines ((''package '' @ replicate 2147483640 (CHR ''a'') @ ''git sha = c'')
                         @ CHR 0x0A # ''git decription = d'' @ CHR 0x0A # []) =
       [''package '' @ replicate 2147483640 (CHR ''a'') @ ''git sha = c'', ''git decription = d'']"
    by (simp only: split_lines_line [OF l1] split_lines_line [OF l2] split_lines.simps)
  show ?thesis
    by (simp only: short four long two) simp
qed



end
